theory Spec2Isabelle
  imports Complex_Main
begin

section \<open>Data model\<close>

text \<open>
  The scripts work on pandas tables fetched from a market-data library. A float cell
  that may be null is a \<open>real option\<close>: \<open>None\<close> is NaN (pandas' null), \<open>Some v\<close> a
  number. Arithmetic is over the reals: rounding is outside this development.
  Columns the code only reads arithmetically (prices, strikes, quotes) hold numbers.
\<close>

type_synonym fl = "real option"

record quote_row =
  underlying_price :: real
  spot_price :: real
  dte :: int
  strike :: real
  option_type :: string
  expiration :: int
  implied_volatility :: fl
  delta :: fl
  theta :: real
  bid :: real
  ask :: real

text \<open>
  A table is its column names and its rows. A row always carries every field of the
  record; \<open>columns\<close> says which of them the provider delivered, and reading any other
  raises \<open>KeyError\<close>. \<open>expiration\<close> is a date, kept as its day number.
\<close>

record table =
  columns :: "string list"
  rows :: "quote_row list"

text \<open>
  The exceptions that can leave the modelled code: a missing column (of a selection
  of several columns, the first one missing), subscripting \<open>None\<close>, and \<open>.iloc[0]\<close> of
  no rows.
\<close>

datatype py_error = KeyError string | TypeError | IndexError

text \<open>
  What a call of the data library gives back: it raises (with the exception's text),
  or returns a table, or returns Python's \<open>None\<close>.
\<close>

datatype 'a fetched = Raises string | Returns "'a option"

text \<open>
  The lines a script prints, with their numbers unformatted. Banners, rules and blank
  lines are not recorded. A function's result is \<open>Inr\<close> of the lines it printed when it
  returns, and \<open>Inl\<close> of the exception when one leaves the function uncaught.
\<close>

datatype out =
    Msg string
  | Caught py_error
  | Underlying real
  | Expirations "int list"
  | TS_Line int fl
  | Structure string fl
  | Fly_Line int real real real
  | Skew_Line int real string
  | Straddle_Line int real fl real fl
  | IV30 fl
  | RV30 fl
  | VRP_Line fl
  | IV_Summary int int fl fl fl
  | IV_Skew int fl string
  | Surface_Plot "quote_row list"
  | Greeks_Price real
  | Greeks_Header int int nat
  | Greeks_Table string "string list" "quote_row list"
  | Greeks_Plot "quote_row list"

subsection \<open>Floats with NaN\<close>

definition fsub :: "fl \<Rightarrow> fl \<Rightarrow> fl" where
  "fsub a b = (case (a, b) of (Some x, Some y) \<Rightarrow> Some (x - y) | _ \<Rightarrow> None)"

definition fscale :: "fl \<Rightarrow> real \<Rightarrow> fl" where
  "fscale a c = (case a of Some x \<Rightarrow> Some (x * c) | None \<Rightarrow> None)"

text \<open>Every ordering comparison with NaN is false; \<open>!=\<close> with NaN is true.\<close>

definition fgt :: "fl \<Rightarrow> real \<Rightarrow> bool" where
  "fgt a c = (case a of Some x \<Rightarrow> x > c | None \<Rightarrow> False)"

definition flt :: "fl \<Rightarrow> real \<Rightarrow> bool" where
  "flt a c = (case a of Some x \<Rightarrow> x < c | None \<Rightarrow> False)"

definition fne :: "fl \<Rightarrow> real \<Rightarrow> bool" where
  "fne a c = (case a of Some x \<Rightarrow> x \<noteq> c | None \<Rightarrow> True)"

definition notna :: "fl \<Rightarrow> bool" where
  "notna a = (case a of Some x \<Rightarrow> True | None \<Rightarrow> False)"

subsection \<open>Table primitives\<close>

text \<open>\<open>DataFrame.empty\<close>: an axis of length 0.\<close>

definition empty_table :: "table \<Rightarrow> bool" where
  "empty_table t = (rows t = [] \<or> columns t = [])"

text \<open>\<open>t[c]\<close>: the continuation runs when the column is there, \<open>KeyError\<close> otherwise.\<close>

definition col :: "string \<Rightarrow> table \<Rightarrow> (py_error + 'a) \<Rightarrow> py_error + 'a" where
  "col c t k = (if c \<in> set (columns t) then k else Inl (KeyError c))"

definition strike_between :: "real \<Rightarrow> real \<Rightarrow> real \<Rightarrow> quote_row \<Rightarrow> bool" where
  "strike_between price lo hi r = (strike r \<ge> price * lo \<and> strike r \<le> price * hi)"

text \<open>\<open>Series.mean()\<close> skips nulls; the mean of no numbers is NaN.\<close>

definition series_mean :: "fl list \<Rightarrow> fl" where
  "series_mean xs =
     (let vs = List.map_filter id xs
      in if vs = [] then None else Some (sum_list vs / real (length vs)))"

text \<open>\<open>g['implied_volatility'].mean() * 100 if not g.empty else 0\<close>\<close>

definition group_mean_iv :: "quote_row list \<Rightarrow> fl" where
  "group_mean_iv g =
     (if g \<noteq> [] then fscale (series_mean (map implied_volatility g)) 100 else Some 0)"

text \<open>
  \<open>'underlying_price' if 'underlying_price' in chains.columns else 'spot_price'\<close>
\<close>

definition resolve_price_col :: "table \<Rightarrow> string" where
  "resolve_price_col tbl =
     (if ''underlying_price'' \<in> set (columns tbl) then ''underlying_price''
      else ''spot_price'')"

definition price_cell :: "string \<Rightarrow> quote_row \<Rightarrow> real" where
  "price_cell c r = (if c = ''underlying_price'' then underlying_price r else spot_price r)"

text \<open>A loop whose body may raise: the first exception ends it.\<close>

fun for_each :: "('a \<Rightarrow> py_error + out list) \<Rightarrow> 'a list \<Rightarrow> py_error + out list" where
  "for_each body [] = Inr []"
| "for_each body (x # xs) =
     (case body x of
        Inl e \<Rightarrow> Inl e
      | Inr ls \<Rightarrow> (case for_each body xs of Inl e \<Rightarrow> Inl e | Inr ls' \<Rightarrow> Inr (ls @ ls')))"

definition and_then :: "py_error + out list \<Rightarrow> (py_error + out list) \<Rightarrow> py_error + out list" where
  "and_then a b =
     (case a of Inl e \<Rightarrow> Inl e
      | Inr ls \<Rightarrow> (case b of Inl e \<Rightarrow> Inl e | Inr ls' \<Rightarrow> Inr (ls @ ls')))"

section \<open>vol\_signals.py: analyze\_vol\_signals\<close>

definition valid_vol :: "quote_row list \<Rightarrow> quote_row list" where
  "valid_vol rs =
     filter (\<lambda>r. dte r \<ge> 1 \<and> notna (implied_volatility r) \<and> fgt (implied_volatility r) 0) rs"

definition exp_rows :: "quote_row list \<Rightarrow> int \<Rightarrow> quote_row list" where
  "exp_rows valid d = filter (\<lambda>r. dte r = d) valid"

definition calls_of :: "quote_row list \<Rightarrow> quote_row list" where
  "calls_of exp_data = filter (\<lambda>r. option_type r = ''call'') exp_data"

definition puts_of :: "quote_row list \<Rightarrow> quote_row list" where
  "puts_of exp_data = filter (\<lambda>r. option_type r = ''put'') exp_data"

subsection \<open>1. Term structure\<close>

fun ts_data :: "real \<Rightarrow> quote_row list \<Rightarrow> int list \<Rightarrow> (int \<times> fl) list" where
  "ts_data price valid [] = []"
| "ts_data price valid (d # ds) =
     (let atm = filter (strike_between price 0.98 1.02) (exp_rows valid d)
      in if atm \<noteq> []
         then (d, fscale (series_mean (map implied_volatility atm)) 100) # ts_data price valid ds
         else ts_data price valid ds)"

definition structure_of :: "fl \<Rightarrow> string" where
  "structure_of ts_spread = (if fgt ts_spread 0 then ''CONTANGO'' else ''BACKWARDATION'')"

definition term_structure :: "(int \<times> fl) list \<Rightarrow> (string \<times> fl) option" where
  "term_structure ts =
     (if length ts \<ge> 2
      then (let near_iv = snd (hd ts);
                far_iv = snd (last ts);
                ts_spread = fsub far_iv near_iv
            in Some (structure_of ts_spread, ts_spread))
      else None)"

definition ts_section :: "table \<Rightarrow> real \<Rightarrow> quote_row list \<Rightarrow> int list \<Rightarrow> py_error + out list" where
  "ts_section tbl price valid expirations =
     (if take 6 expirations = [] then Inr []
      else col ''strike'' tbl
        (let ts = ts_data price valid (take 6 expirations)
         in Inr (map (\<lambda>(d, iv). TS_Line d iv) ts @
              (case term_structure ts of
                 None \<Rightarrow> []
               | Some (structure, ts_spread) \<Rightarrow>
                   Structure structure ts_spread #
                   (if structure = ''CONTANGO''
                    then [Msg ''  Signal: Calendar spread opportunity (+Theta, +Gamma)'']
                    else [])))))"

subsection \<open>2. Fly, 3. Skew\<close>

definition atm_calls_of :: "real \<Rightarrow> quote_row list \<Rightarrow> quote_row list" where
  "atm_calls_of price exp_data = filter (strike_between price 0.98 1.02) (calls_of exp_data)"

definition otm_calls_of :: "real \<Rightarrow> quote_row list \<Rightarrow> quote_row list" where
  "otm_calls_of price exp_data = filter (strike_between price 1.03 1.08) (calls_of exp_data)"

definition otm_puts_of :: "real \<Rightarrow> quote_row list \<Rightarrow> quote_row list" where
  "otm_puts_of price exp_data = filter (strike_between price 0.92 0.97) (puts_of exp_data)"

definition fly_entry :: "real \<Rightarrow> quote_row list \<Rightarrow> (real \<times> real \<times> real) option" where
  "fly_entry price exp_data =
     (let atm_iv = group_mean_iv (atm_calls_of price exp_data);
          call_25d_iv = group_mean_iv (otm_calls_of price exp_data);
          put_25d_iv = group_mean_iv (otm_puts_of price exp_data)
      in if fgt atm_iv 0 \<and> fgt call_25d_iv 0 \<and> fgt put_25d_iv 0
         then (case (atm_iv, call_25d_iv, put_25d_iv) of
                 (Some a, Some c, Some p) \<Rightarrow> Some ((c + p) / 2 - a, a, (c + p) / 2)
               | _ \<Rightarrow> None)
         else None)"

definition fly_body :: "table \<Rightarrow> real \<Rightarrow> quote_row list \<Rightarrow> int \<Rightarrow> py_error + out list" where
  "fly_body tbl price valid d =
     col ''option_type'' tbl (col ''strike'' tbl
       (Inr (case fly_entry price (exp_rows valid d) of
               None \<Rightarrow> []
             | Some (fly, a, w) \<Rightarrow> [Fly_Line d fly a w])))"

definition fly_section :: "table \<Rightarrow> real \<Rightarrow> quote_row list \<Rightarrow> int list \<Rightarrow> py_error + out list" where
  "fly_section tbl price valid expirations =
     for_each (fly_body tbl price valid) (take 3 expirations)"

definition skew_direction :: "real \<Rightarrow> string" where
  "skew_direction skew =
     (if skew > 2 then ''BEARISH'' else if skew < - 2 then ''BULLISH'' else ''NEUTRAL'')"

definition skew_entry :: "real \<Rightarrow> quote_row list \<Rightarrow> (real \<times> string) option" where
  "skew_entry price exp_data =
     (let call_iv = group_mean_iv (otm_calls_of price exp_data);
          put_iv = group_mean_iv (otm_puts_of price exp_data)
      in if fgt call_iv 0 \<and> fgt put_iv 0
         then (case (call_iv, put_iv) of
                 (Some c, Some p) \<Rightarrow> Some (p - c, skew_direction (p - c))
               | _ \<Rightarrow> None)
         else None)"

definition skew_body :: "table \<Rightarrow> real \<Rightarrow> quote_row list \<Rightarrow> int \<Rightarrow> py_error + out list" where
  "skew_body tbl price valid d =
     col ''option_type'' tbl (col ''strike'' tbl
       (Inr (case skew_entry price (exp_rows valid d) of
               None \<Rightarrow> []
             | Some (skew, direction) \<Rightarrow> [Skew_Line d skew direction])))"

definition skew_section :: "table \<Rightarrow> real \<Rightarrow> quote_row list \<Rightarrow> int list \<Rightarrow> py_error + out list" where
  "skew_section tbl price valid expirations =
     for_each (skew_body tbl price valid) (take 3 expirations)"

subsection \<open>4. Straddle\<close>

text \<open>
  The rows of one type whose distance to spot is the least distance over the whole
  expiry (calls and puts together). \<open>min()\<close> of no rows is NaN, which equals nothing.
  The loop also rounds the spot to a multiple of 5 (\<open>atm_strike\<close>) and never uses it.
\<close>

definition nearest :: "string \<Rightarrow> real \<Rightarrow> quote_row list \<Rightarrow> quote_row list" where
  "nearest ty price exp_data =
     (if exp_data = [] then []
      else filter (\<lambda>r. option_type r = ty \<and>
                        \<bar>strike r - price\<bar> = min_list (map (\<lambda>q. \<bar>strike q - price\<bar>) exp_data))
             exp_data)"

text \<open>A quotient of floats: dividing by zero gives inf or nan, written \<open>None\<close>.\<close>

definition fdiv :: "real \<Rightarrow> real \<Rightarrow> fl" where
  "fdiv a b = (if b = 0 then None else Some (a / b))"

definition straddle_line :: "table \<Rightarrow> real \<Rightarrow> int \<Rightarrow> quote_row \<Rightarrow> quote_row \<Rightarrow> out" where
  "straddle_line tbl price d c p =
     (let call_mid = (bid c + ask c) / 2;
          put_mid = (bid p + ask p) / 2;
          straddle_cost = call_mid + put_mid;
          pct_move = fscale (fdiv straddle_cost price) 100;
          call_theta = (if ''theta'' \<in> set (columns tbl) then theta c else 0);
          put_theta = (if ''theta'' \<in> set (columns tbl) then theta p else 0);
          total_theta = call_theta + put_theta
      in Straddle_Line d straddle_cost pct_move total_theta
           (case pct_move of None \<Rightarrow> None | Some m \<Rightarrow> fdiv m (real_of_int d)))"

definition straddle_body :: "table \<Rightarrow> real \<Rightarrow> quote_row list \<Rightarrow> int \<Rightarrow> py_error + out list" where
  "straddle_body tbl price valid d =
     col ''option_type'' tbl (col ''strike'' tbl
       (case (nearest ''call'' price (exp_rows valid d),
              nearest ''put'' price (exp_rows valid d)) of
          (c # cs, p # ps) \<Rightarrow>
            col ''bid'' tbl (col ''ask'' tbl (Inr [straddle_line tbl price d c p]))
        | _ \<Rightarrow> Inr []))"

definition straddle_section :: "table \<Rightarrow> real \<Rightarrow> quote_row list \<Rightarrow> int list \<Rightarrow> py_error + out list" where
  "straddle_section tbl price valid expirations =
     for_each (straddle_body tbl price valid) (take 3 expirations)"

subsection \<open>5. Summary and the whole function\<close>

definition signals_summary :: "(int \<times> fl) list \<Rightarrow> out list" where
  "signals_summary ts =
     (case term_structure ts of
        None \<Rightarrow> [Msg ''No strong signals detected'']
      | Some (structure, ts_spread) \<Rightarrow>
          if fgt ts_spread 2 then [Msg ''[+] Strong Contango: Sell calendar spreads'']
          else if flt ts_spread (- 2) then [Msg ''[+] Backwardation: Vol compression expected'']
          else [Msg ''No strong signals detected''])"

definition analyze_vol_signals :: "table fetched \<Rightarrow> py_error + out list" where
  "analyze_vol_signals result =
     (case result of
        Raises e \<Rightarrow> Inr [Msg (''Error fetching data: '' @ e)]
      | Returns None \<Rightarrow> Inr [Msg ''No options data available'']
      | Returns (Some tbl) \<Rightarrow>
          if empty_table tbl then Inr [Msg ''No options data available'']
          else if resolve_price_col tbl \<notin> set (columns tbl)
          then Inr [Msg ''Cannot determine underlying price'']
          else (case rows tbl of
            [] \<Rightarrow> Inl IndexError
          | r0 # rest \<Rightarrow>
             (let price = price_cell (resolve_price_col tbl) r0
              in col ''dte'' tbl (col ''implied_volatility'' tbl
                (let valid = valid_vol (rows tbl)
                 in if valid = [] then Inr [Msg ''No valid options data'']
                    else
                     (let expirations = sort (remdups (map dte valid))
                      in and_then (Inr [Underlying price, Expirations (take 8 expirations)])
                        (and_then (ts_section tbl price valid expirations)
                        (and_then (fly_section tbl price valid expirations)
                        (and_then (skew_section tbl price valid expirations)
                        (and_then (straddle_section tbl price valid expirations)
                           (Inr (signals_summary
                                  (ts_data price valid (take 6 expirations))))))))))))))"

section \<open>vol\_signals.py: calculate\_vrp\<close>

text \<open>
  The price history: its columns and the \<open>close\<close> column, one number per day.
\<close>

record history =
  hist_columns :: "string list"
  closes :: "real list"

text \<open>
  A daily return: a number, an infinity (a nonzero close after a zero close) or NaN
  (the first row, and zero after zero).
\<close>

datatype ret = Fin real | Inf | NaN

fun pct_from :: "real \<Rightarrow> real list \<Rightarrow> ret list" where
  "pct_from prev [] = []"
| "pct_from prev (c # cs) =
     (if prev = 0 then (if c = 0 then NaN else Inf) else Fin (c / prev - 1)) # pct_from c cs"

fun pct_change :: "real list \<Rightarrow> ret list" where
  "pct_change [] = []"
| "pct_change (c # cs) = NaN # pct_from c cs"

definition dropna :: "ret list \<Rightarrow> ret list" where
  "dropna rs = filter (\<lambda>r. r \<noteq> NaN) rs"

text \<open>\<open>Series.tail(n)\<close>: the last n rows; none for 0; all but the first -n for n below 0.\<close>

definition tail_rows :: "int \<Rightarrow> 'a list \<Rightarrow> 'a list" where
  "tail_rows n xs =
     (if n = 0 then []
      else if n > 0 then drop (length xs - nat n) xs
      else drop (nat (- n)) xs)"

fun fin_values :: "ret list \<Rightarrow> real list" where
  "fin_values [] = []"
| "fin_values (Fin v # rs) = v # fin_values rs"
| "fin_values (r # rs) = fin_values rs"

text \<open>
  \<open>Series.std()\<close>: the sample standard deviation (denominator n - 1) of the non-null
  values; NaN for fewer than two values, and when an infinity is among them.
\<close>

definition series_std :: "ret list \<Rightarrow> fl" where
  "series_std rs =
     (let vs = fin_values rs; n = length vs
      in if Inf \<in> set rs \<or> n < 2 then None
         else (let avg = sum_list vs / real n
               in Some (sqrt (sum_list (map (\<lambda>v. (avg - v)\<^sup>2) vs) / real (n - 1)))))"

definition realized_vol :: "real list \<Rightarrow> int \<Rightarrow> fl" where
  "realized_vol close lookback_days =
     (let returns = tail_rows lookback_days (dropna (pct_change close))
      in fscale (fscale (series_std returns) (sqrt 252)) 100)"

definition vrp_signal :: "fl \<Rightarrow> string" where
  "vrp_signal vrp =
     (if fgt vrp 5 then ''Signal: HIGH VRP - Favorable for vol selling''
      else if flt vrp (- 5) then ''Signal: NEGATIVE VRP - Pause vol selling strategies''
      else ''Signal: NEUTRAL VRP'')"

definition atm_30d :: "real \<Rightarrow> quote_row list \<Rightarrow> quote_row list" where
  "atm_30d price rs =
     filter (strike_between price 0.98 1.02) (filter (\<lambda>r. dte r \<ge> 25 \<and> dte r \<le> 35) rs)"

text \<open>Inside the \<open>try\<close>: a missing column is caught and printed.\<close>

definition col_try :: "string \<Rightarrow> string list \<Rightarrow> out list \<Rightarrow> out list" where
  "col_try c cs k = (if c \<in> set cs then k else [Caught (KeyError c)])"

definition vrp_report :: "fl \<Rightarrow> history fetched \<Rightarrow> int \<Rightarrow> out list" where
  "vrp_report iv_30d hist_result lookback_days =
     (case hist_result of
        Raises e \<Rightarrow> [Msg (''Error: '' @ e)]
      | Returns None \<Rightarrow> [Msg ''Insufficient historical data for RV'']
      | Returns (Some hist) \<Rightarrow>
          if int (length (closes hist)) < lookback_days
          then [Msg ''Insufficient historical data for RV'']
          else col_try ''close'' (hist_columns hist)
            (let rv_30d = realized_vol (closes hist) lookback_days;
                 vrp = fsub iv_30d rv_30d
             in [RV30 rv_30d, VRP_Line vrp, Msg (vrp_signal vrp)]))"

definition calculate_vrp :: "table fetched \<Rightarrow> history fetched \<Rightarrow> int \<Rightarrow> out list" where
  "calculate_vrp result hist_result lookback_days =
     (case result of
        Raises e \<Rightarrow> [Msg (''Error: '' @ e)]
      | Returns None \<Rightarrow> [Msg ''No options data'']
      | Returns (Some tbl) \<Rightarrow>
          if empty_table tbl then [Msg ''No options data'']
          else col_try (resolve_price_col tbl) (columns tbl)
            (case rows tbl of
               [] \<Rightarrow> [Caught IndexError]
             | r0 # rest \<Rightarrow>
                (let price = price_cell (resolve_price_col tbl) r0
                 in col_try ''dte'' (columns tbl) (col_try ''strike'' (columns tbl)
                   (let atm = atm_30d price (rows tbl)
                    in if atm = [] then [Msg ''No ATM options for 30-day expiry'']
                       else col_try ''implied_volatility'' (columns tbl)
                         (let iv_30d = fscale (series_mean (map implied_volatility atm)) 100
                          in IV30 iv_30d # vrp_report iv_30d hist_result lookback_days))))))"

section \<open>iv\_surface.py\<close>

definition valid_iv :: "quote_row list \<Rightarrow> quote_row list" where
  "valid_iv rs =
     filter (\<lambda>r. dte r \<ge> 7 \<and> dte r \<le> 180 \<and>
                 notna (implied_volatility r) \<and> fgt (implied_volatility r) 0) rs"

text \<open>A loop that collects one value per item and stops at the first exception.\<close>

fun map_err :: "('a \<Rightarrow> py_error + 'b) \<Rightarrow> 'a list \<Rightarrow> py_error + 'b list" where
  "map_err f [] = Inr []"
| "map_err f (x # xs) =
     (case f x of
        Inl e \<Rightarrow> Inl e
      | Inr y \<Rightarrow> (case map_err f xs of Inl e \<Rightarrow> Inl e | Inr ys \<Rightarrow> Inr (y # ys)))"

text \<open>One entry of \<open>iv_data\<close>: expiration, dte, atm\_iv, call\_iv, put\_iv.\<close>

definition iv_entry ::
  "table \<Rightarrow> real \<Rightarrow> quote_row list \<Rightarrow> int \<Rightarrow> py_error + (int \<times> int \<times> fl \<times> fl \<times> fl)" where
  "iv_entry tbl price valid e =
     (let exp_data = filter (\<lambda>r. expiration r = e) valid
      in case exp_data of
           [] \<Rightarrow> Inl IndexError
         | r0 # rest \<Rightarrow>
             col ''strike'' tbl (col ''option_type'' tbl
               (Inr (e, dte r0,
                     group_mean_iv (filter (strike_between price 0.98 1.02) exp_data),
                     group_mean_iv (calls_of exp_data),
                     group_mean_iv (puts_of exp_data)))))"

text \<open>The label is printed after an arrow glyph, which is not recorded.\<close>

definition iv_skew_direction :: "fl \<Rightarrow> string" where
  "iv_skew_direction skew =
     (if fgt skew 2 then ''Bearish'' else if flt skew (- 2) then ''Bullish'' else ''Neutral'')"

definition iv_skew_line :: "int \<times> int \<times> fl \<times> fl \<times> fl \<Rightarrow> out" where
  "iv_skew_line d =
     (case d of (e, dt, atm_iv, call_iv, put_iv) \<Rightarrow>
        IV_Skew e (fsub put_iv call_iv) (iv_skew_direction (fsub put_iv call_iv)))"

definition plot_iv_surface :: "bool \<Rightarrow> quote_row list \<Rightarrow> real \<Rightarrow> out list" where
  "plot_iv_surface have_matplotlib data price =
     (if \<not> have_matplotlib then [Msg ''matplotlib not installed. Skipping visualization.'']
      else (let calls = filter (strike_between price 0.8 1.2) (calls_of data)
            in if length calls < 10 then [Msg ''Not enough data for surface plot'']
               else [Surface_Plot calls]))"

definition analyze_iv_surface ::
  "string \<Rightarrow> table fetched \<Rightarrow> bool \<Rightarrow> bool \<Rightarrow> py_error + out list" where
  "analyze_iv_surface ticker result plot have_matplotlib =
     (case result of
        Raises e \<Rightarrow> Inr [Msg (''Error fetching options chain: '' @ e)]
      | Returns None \<Rightarrow> Inr [Msg (''No options data for '' @ ticker)]
      | Returns (Some tbl) \<Rightarrow>
          if empty_table tbl then Inr [Msg (''No options data for '' @ ticker)]
          else col ''underlying_price'' tbl
            (case rows tbl of
               [] \<Rightarrow> Inl IndexError
             | r0 # rest \<Rightarrow>
                (let price = underlying_price r0
                 in col ''dte'' tbl (col ''implied_volatility'' tbl
                   (let valid = valid_iv (rows tbl)
                    in if valid = [] then Inr [Msg ''No valid IV data found'']
                       else col ''expiration'' tbl
                         (let expirations = sort (remdups (map expiration valid))
                          in case map_err (iv_entry tbl price valid) (take 8 expirations) of
                               Inl e \<Rightarrow> Inl e
                             | Inr iv_data \<Rightarrow>
                                 Inr (Underlying price #
                                      map (\<lambda>(e, dt, a, c, p). IV_Summary e dt a c p) iv_data @
                                      map iv_skew_line iv_data @
                                      (if plot then plot_iv_surface have_matplotlib valid price
                                       else []))))))))"

section \<open>options\_greeks.py\<close>

definition valid_greeks :: "int \<Rightarrow> int \<Rightarrow> quote_row list \<Rightarrow> quote_row list" where
  "valid_greeks min_dte max_dte rs =
     filter (\<lambda>r. dte r \<ge> min_dte \<and> dte r \<le> max_dte \<and>
                 fne (delta r) 0 \<and> fne (delta r) 1 \<and> fne (delta r) (- 1)) rs"

definition atm_side :: "string \<Rightarrow> real \<Rightarrow> real \<Rightarrow> quote_row list \<Rightarrow> quote_row list" where
  "atm_side ty lower upper selected =
     filter (\<lambda>r. option_type r = ty \<and> strike r \<ge> lower \<and> strike r \<le> upper) selected"

definition greeks_cols :: "string list" where
  "greeks_cols = [''strike'', ''delta'', ''gamma'', ''theta'', ''vega'',
                  ''implied_volatility'', ''bid'', ''ask'']"

text \<open>\<open>sort_values('strike')\<close>; the order of rows of equal strike is pandas' choice.\<close>

definition plot_greeks :: "bool \<Rightarrow> quote_row list \<Rightarrow> real \<Rightarrow> out list" where
  "plot_greeks have_matplotlib data price =
     (if \<not> have_matplotlib then [Msg ''matplotlib not installed. Skipping visualization.'']
      else (let calls = filter (strike_between price 0.85 1.15)
                          (sort_key strike (calls_of data))
            in if calls = [] then [Msg ''Not enough data for visualization'']
               else [Greeks_Plot calls]))"

definition analyze_options_greeks ::
  "string \<Rightarrow> table fetched \<Rightarrow> int \<Rightarrow> int \<Rightarrow> real \<Rightarrow> bool \<Rightarrow> bool \<Rightarrow> py_error + out list" where
  "analyze_options_greeks ticker result min_dte max_dte pct_range visualize have_matplotlib =
     (case result of
        Raises e \<Rightarrow> Inr [Msg (''Error fetching options chain: '' @ e)]
      | Returns None \<Rightarrow> Inr [Msg (''No options data for '' @ ticker)]
      | Returns (Some tbl) \<Rightarrow>
          if empty_table tbl then Inr [Msg (''No options data for '' @ ticker)]
          else if resolve_price_col tbl \<notin> set (columns tbl)
          then Inr [Msg ''Cannot determine underlying price from data'']
          else (case rows tbl of
            [] \<Rightarrow> Inl IndexError
          | r0 # rest \<Rightarrow>
             (let price = price_cell (resolve_price_col tbl) r0
              in col ''dte'' tbl (col ''delta'' tbl
                (let valid = valid_greeks min_dte max_dte (rows tbl)
                 in if valid = []
                    then Inr [Greeks_Price price, Msg ''No valid options found with Greeks data'']
                    else col ''expiration'' tbl
                      (case sort (remdups (map expiration valid)) of
                         [] \<Rightarrow> Inr [Greeks_Price price, Msg ''No expirations found after filtering'']
                       | expiry # later \<Rightarrow>
                          (case filter (\<lambda>r. expiration r = expiry) valid of
                             [] \<Rightarrow> Inl IndexError
                           | s0 # srest \<Rightarrow>
                              (let selected = filter (\<lambda>r. expiration r = expiry) valid;
                                   lower = price * (1 - pct_range);
                                   upper = price * (1 + pct_range)
                               in col ''option_type'' tbl (col ''strike'' tbl
                                 (let calls = atm_side ''call'' lower upper selected;
                                      puts = atm_side ''put'' lower upper selected;
                                      available = filter (\<lambda>c. c \<in> set (columns tbl)) greeks_cols
                                  in Inr ([Greeks_Price price,
                                           Greeks_Header expiry (dte s0) (length selected),
                                           (if calls \<noteq> [] then Greeks_Table ''calls'' available calls
                                            else Msg ''No ATM calls found''),
                                           (if puts \<noteq> [] then Greeks_Table ''puts'' available puts
                                            else Msg ''No ATM puts found'')] @
                                          (if visualize
                                           then plot_greeks have_matplotlib selected price
                                           else []))))))))))))"

section \<open>perpetual\_analysis.py\<close>

record perp_row =
  symbol :: "string option"
  last_price :: fl
  mark_price :: fl
  current_funding :: fl
  funding_8h :: fl
  open_interest :: fl
  volume_usd :: fl
  change_percent :: fl

record perp_table =
  perp_columns :: "string list"
  perp_rows :: "perp_row list"

datatype perp_out =
    PMsg string
  | Perp_Report "string option" fl fl fl fl fl fl fl
  | Perp_Table "string list" "perp_row list"

text \<open>\<open>','.join(symbols)\<close>\<close>

fun join_comma :: "string list \<Rightarrow> string" where
  "join_comma [] = []"
| "join_comma [s] = s"
| "join_comma (s # ss) = s @ '','' @ join_comma ss"

text \<open>
  \<open>row.get(c) or 0\<close>: 0 for a column that is not there; a NaN cell stays NaN (it is
  truthy), and a zero cell is 0 either way.
\<close>

definition get_or0 :: "string \<Rightarrow> perp_table \<Rightarrow> fl \<Rightarrow> fl" where
  "get_or0 c info v = (if c \<in> set (perp_columns info) then v else Some 0)"

definition perp_report :: "perp_table \<Rightarrow> perp_row \<Rightarrow> perp_out" where
  "perp_report info row =
     Perp_Report
       (if ''symbol'' \<in> set (perp_columns info) then symbol row else Some ''N/A'')
       (get_or0 ''last_price'' info (last_price row))
       (get_or0 ''mark_price'' info (mark_price row))
       (fscale (get_or0 ''current_funding'' info (current_funding row)) 100)
       (fscale (get_or0 ''funding_8h'' info (funding_8h row)) 100)
       (get_or0 ''open_interest'' info (open_interest row))
       (get_or0 ''volume_usd'' info (volume_usd row))
       (get_or0 ''change_percent'' info (change_percent row))"

definition perp_cols :: "string list" where
  "perp_cols = [''symbol'', ''last_price'', ''mark_price'', ''current_funding'',
                ''funding_8h'', ''open_interest'', ''volume_usd'', ''change_percent'']"

definition analyze_perpetuals ::
  "string list \<Rightarrow> bool \<Rightarrow> perp_table fetched \<Rightarrow> py_error + perp_out list" where
  "analyze_perpetuals symbols show_all result =
     (case result of
        Raises e \<Rightarrow>
          Inr [PMsg (''Error fetching data for '' @ join_comma symbols @ '': '' @ e)]
      | Returns None \<Rightarrow> Inr [PMsg (''No data for '' @ join_comma symbols)]
      | Returns (Some info) \<Rightarrow>
          if perp_rows info = [] \<or> perp_columns info = []
          then Inr [PMsg (''No data for '' @ join_comma symbols)]
          else Inr (map (perp_report info) (perp_rows info) @
                    (if show_all
                     then [PMsg ''Raw Data:'',
                           Perp_Table (filter (\<lambda>c. c \<in> set (perp_columns info)) perp_cols)
                             (perp_rows info)]
                     else [])))"

text \<open>\<open>str.contains(pat)\<close> for a pattern without regex metacharacters.\<close>

fun contains :: "string \<Rightarrow> string \<Rightarrow> bool" where
  "contains pat [] = (pat = [])"
| "contains pat (c # cs) = (take (length pat) (c # cs) = pat \<or> contains pat cs)"

text \<open>\<open>t[[c1, c2, ...]]\<close>: the first of the names that is no column of the table.\<close>

fun first_missing :: "string list \<Rightarrow> string list \<Rightarrow> string option" where
  "first_missing cols [] = None"
| "first_missing cols (c # cs) = (if c \<in> set cols then first_missing cols cs else Some c)"

definition list_instruments :: "perp_table fetched \<Rightarrow> py_error + perp_out list" where
  "list_instruments result =
     (case result of
        Raises e \<Rightarrow> Inr [PMsg (''Error fetching instruments: '' @ e)]
      | Returns None \<Rightarrow> Inl TypeError
      | Returns (Some instruments) \<Rightarrow>
          if ''symbol'' \<notin> set (perp_columns instruments) then Inl (KeyError ''symbol'')
          else (let perps = filter (\<lambda>r. case symbol r of
                                           None \<Rightarrow> False
                                         | Some s \<Rightarrow> contains ''PERPETUAL'' s)
                              (perp_rows instruments)
                in case first_missing (perp_columns instruments)
                          [''symbol'', ''last_price'', ''open_interest''] of
                     Some c \<Rightarrow> Inl (KeyError c)
                   | None \<Rightarrow>
                       Inr [PMsg ''Available Perpetual Contracts:'',
                            Perp_Table [''symbol'', ''last_price'', ''open_interest''] perps]))"

section \<open>Realized volatility as the specification words it\<close>

text \<open>
  The specification: realized volatility is the standard deviation of the daily
  returns over a trailing window, annualized by the square root of 252 and times 100.
  The standard deviation is the sample one (denominator n - 1), over plain numbers.
\<close>

definition spec_stdev :: "real list \<Rightarrow> real" where
  "spec_stdev xs =
     sqrt ((\<Sum>x\<leftarrow>xs. (x - sum_list xs / real (length xs))\<^sup>2) / (real (length xs) - 1))"

definition spec_realized_vol :: "real list \<Rightarrow> nat \<Rightarrow> real" where
  "spec_realized_vol returns n =
     spec_stdev (drop (length returns - n) returns) * sqrt 252 * 100"

section \<open>Sample data\<close>

text \<open>
  A quote on a spot of 100 with the given type, days to expiry, strike and implied
  volatility (quoted 1.00 bid, 2.00 ask, delta 0.5), for running the functions above
  on concrete tables.
\<close>

definition sample_quote :: "string \<Rightarrow> int \<Rightarrow> real \<Rightarrow> fl \<Rightarrow> quote_row" where
  "sample_quote ty d k iv =
     \<lparr>underlying_price = 100, spot_price = 100, dte = d, strike = k, option_type = ty,
      expiration = d, implied_volatility = iv, delta = Some 0.5, theta = - 0.1,
      bid = 1, ask = 2\<rparr>"

definition all_columns :: "string list" where
  "all_columns = [''underlying_price'', ''dte'', ''strike'', ''option_type'', ''expiration'',
                  ''implied_volatility'', ''delta'', ''theta'', ''bid'', ''ask'']"

text \<open>
  A one-row chain of a provider that names the price column \<open>spot_price\<close>, the same
  chain without any price column, and a quote whose delta is null.
\<close>

definition spot_price_table :: table where
  "spot_price_table =
     \<lparr>columns = [''spot_price'', ''dte'', ''strike'', ''option_type'', ''expiration'',
                  ''implied_volatility'', ''delta'', ''theta'', ''bid'', ''ask''],
      rows = [sample_quote ''call'' 30 100 (Some 0.2)]\<rparr>"

definition no_price_table :: table where
  "no_price_table =
     \<lparr>columns = [''dte'', ''strike'', ''option_type'', ''expiration'',
                  ''implied_volatility'', ''delta'', ''theta'', ''bid'', ''ask''],
      rows = [sample_quote ''call'' 30 100 (Some 0.2)]\<rparr>"

definition null_delta_quote :: quote_row where
  "null_delta_quote = (sample_quote ''call'' 30 100 (Some 0.2))\<lparr>delta := None\<rparr>"

text \<open>
  An instrument listing with the columns \<open>symbol\<close> and \<open>base_currency\<close> only, and one
  perpetual in it.
\<close>

definition sample_instruments :: perp_table where
  "sample_instruments =
     \<lparr>perp_columns = [''symbol'', ''base_currency''],
      perp_rows = [\<lparr>symbol = Some ''BTC-PERPETUAL'', last_price = None, mark_price = None,
                    current_funding = None, funding_8h = None, open_interest = None,
                    volume_usd = None, change_percent = None\<rparr>]\<rparr>"

section \<open>Properties\<close>

subsection \<open>Variance risk premium\<close>

text \<open>
  Claim C2. With enough history and a \<open>close\<close> column, \<open>calculate_vrp\<close> prints the
  realized volatility, then VRP = 30-day IV minus realized volatility, then the signal
  of that VRP. The signal is HIGH VRP exactly when VRP > 5, NEGATIVE VRP exactly when
  VRP < -5, and NEUTRAL VRP otherwise. IV 25 and RV 18 give +7 and HIGH VRP; IV 20 and
  RV 26 give -6 and NEGATIVE VRP; IV 22 and RV 20 give +2 and NEUTRAL VRP.
\<close>

theorem vrp_classification:
  assumes "lookback_days \<le> int (length (closes hist))"
      and "''close'' \<in> set (hist_columns hist)"
  shows "vrp_report iv_30d (Returns (Some hist)) lookback_days =
           [RV30 (realized_vol (closes hist) lookback_days),
            VRP_Line (fsub iv_30d (realized_vol (closes hist) lookback_days)),
            Msg (vrp_signal (fsub iv_30d (realized_vol (closes hist) lookback_days)))]
         \<and> fsub (Some iv) (Some rv) = Some (iv - rv)
         \<and> (vrp_signal (Some vrp) = ''Signal: HIGH VRP - Favorable for vol selling'') = (vrp > 5)
         \<and> (vrp_signal (Some vrp) = ''Signal: NEGATIVE VRP - Pause vol selling strategies'')
             = (vrp < - 5)
         \<and> (vrp_signal (Some vrp) = ''Signal: NEUTRAL VRP'') = (- 5 \<le> vrp \<and> vrp \<le> 5)
         \<and> fsub (Some 25) (Some 18) = Some 7
         \<and> vrp_signal (Some 7) = ''Signal: HIGH VRP - Favorable for vol selling''
         \<and> fsub (Some 20) (Some 26) = Some (- 6)
         \<and> vrp_signal (Some (- 6)) = ''Signal: NEGATIVE VRP - Pause vol selling strategies''
         \<and> fsub (Some 22) (Some 20) = Some 2
         \<and> vrp_signal (Some 2) = ''Signal: NEUTRAL VRP''"
  using assms
  by (auto simp add: vrp_report_def col_try_def Let_def fsub_def vrp_signal_def fgt_def flt_def)

text \<open>
  A flat three-day history with a two-day lookback has realized volatility 0, so an IV
  of 25 is a VRP of 25 and the signal is HIGH VRP.
\<close>

theorem vrp_classification_witness:
  "vrp_report (Some 25)
     (Returns (Some \<lparr>hist_columns = [''close''], closes = [100, 100, 100]\<rparr>)) 2 =
     [RV30 (Some 0), VRP_Line (Some 25), Msg ''Signal: HIGH VRP - Favorable for vol selling'']"
  using vrp_classification
    [of 2 "\<lparr>hist_columns = [''close''], closes = [100, 100, 100]\<rparr>" "Some 25"]
  by (simp add: realized_vol_def tail_rows_def dropna_def series_std_def fscale_def fsub_def
        vrp_signal_def fgt_def flt_def Let_def)

subsection \<open>Skew\<close>

lemma group_mean_iv_empty: "group_mean_iv [] = Some 0"
  by (simp add: group_mean_iv_def)

lemma set_otm_puts_of:
  "set (otm_puts_of price exp_data) =
     {r \<in> set exp_data. option_type r = ''put'' \<and>
        price * 0.92 \<le> strike r \<and> strike r \<le> price * 0.97}"
  by (auto simp add: otm_puts_of_def puts_of_def strike_between_def)

lemma set_otm_calls_of:
  "set (otm_calls_of price exp_data) =
     {r \<in> set exp_data. option_type r = ''call'' \<and>
        price * 1.03 \<le> strike r \<and> strike r \<le> price * 1.08}"
  by (auto simp add: otm_calls_of_def calls_of_def strike_between_def)

lemma skew_direction_cases:
  "(skew_direction s = ''BEARISH'') = (s > 2)"
  "(skew_direction s = ''BULLISH'') = (s < - 2)"
  "(skew_direction s = ''NEUTRAL'') = (- 2 \<le> s \<and> s \<le> 2)"
  by (auto simp add: skew_direction_def)

lemma iv_skew_direction_cases:
  "(iv_skew_direction (Some s) = ''Bearish'') = (s > 2)"
  "(iv_skew_direction (Some s) = ''Bullish'') = (s < - 2)"
  "(iv_skew_direction (Some s) = ''Neutral'') = (- 2 \<le> s \<and> s \<le> 2)"
  by (auto simp add: iv_skew_direction_def fgt_def flt_def)

text \<open>
  Claim C1. In \<open>analyze_vol_signals\<close>, when the mean IV of the puts with strike in
  [0.92, 0.97] of spot and the mean IV of the calls with strike in [1.03, 1.08] of spot
  are both positive, the skew line of that expiry shows skew = put IV - call IV, and
  its label is BEARISH exactly when skew > 2, BULLISH exactly when skew < -2, NEUTRAL
  exactly when -2 <= skew <= 2. A skew of exactly 2 is NEUTRAL, and 2.01 is BEARISH.
  The skew table of \<open>analyze_iv_surface\<close> labels a skew by the same strict thresholds.
\<close>

theorem skew_threshold_exact:
  assumes "''option_type'' \<in> set (columns tbl)" and "''strike'' \<in> set (columns tbl)"
      and "group_mean_iv (otm_puts_of price (exp_rows valid d)) = Some put_iv"
      and "group_mean_iv (otm_calls_of price (exp_rows valid d)) = Some call_iv"
      and "0 < put_iv" and "0 < call_iv"
  shows "skew_body tbl price valid d =
           Inr [Skew_Line d (put_iv - call_iv) (skew_direction (put_iv - call_iv))]
       \<and> (skew_direction (put_iv - call_iv) = ''BEARISH'') = (put_iv - call_iv > 2)
       \<and> (skew_direction (put_iv - call_iv) = ''BULLISH'') = (put_iv - call_iv < - 2)
       \<and> (skew_direction (put_iv - call_iv) = ''NEUTRAL'')
           = (- 2 \<le> put_iv - call_iv \<and> put_iv - call_iv \<le> 2)
       \<and> set (otm_puts_of price (exp_rows valid d)) =
           {r \<in> set (exp_rows valid d). option_type r = ''put'' \<and>
              price * 0.92 \<le> strike r \<and> strike r \<le> price * 0.97}
       \<and> set (otm_calls_of price (exp_rows valid d)) =
           {r \<in> set (exp_rows valid d). option_type r = ''call'' \<and>
              price * 1.03 \<le> strike r \<and> strike r \<le> price * 1.08}
       \<and> skew_direction 2 = ''NEUTRAL'' \<and> skew_direction 2.01 = ''BEARISH''
       \<and> (iv_skew_direction (Some s) = ''Bearish'') = (s > 2)
       \<and> (iv_skew_direction (Some s) = ''Bullish'') = (s < - 2)
       \<and> (iv_skew_direction (Some s) = ''Neutral'') = (- 2 \<le> s \<and> s \<le> 2)"
proof -
  have "skew_entry price (exp_rows valid d) =
          Some (put_iv - call_iv, skew_direction (put_iv - call_iv))"
    using assms(3-6) by (simp add: skew_entry_def fgt_def)
  then have "skew_body tbl price valid d =
           Inr [Skew_Line d (put_iv - call_iv) (skew_direction (put_iv - call_iv))]"
    using assms(1,2) by (simp add: skew_body_def col_def)
  moreover have "skew_direction 2 = ''NEUTRAL''" "skew_direction 2.01 = ''BEARISH''"
    by (simp_all add: skew_direction_def)
  ultimately show ?thesis
    by (simp only: skew_direction_cases iv_skew_direction_cases set_otm_puts_of
          set_otm_calls_of)
qed

text \<open>
  Spot 100, a 95 put at 22 percent and a 105 call at 20 percent: the skew is exactly 2
  and the label is NEUTRAL.
\<close>

theorem skew_threshold_exact_witness:
  "skew_body
     \<lparr>columns = all_columns,
      rows = [sample_quote ''put'' 30 95 (Some 0.22), sample_quote ''call'' 30 105 (Some 0.2)]\<rparr>
     100 [sample_quote ''put'' 30 95 (Some 0.22), sample_quote ''call'' 30 105 (Some 0.2)] 30
   = Inr [Skew_Line 30 2 ''NEUTRAL'']"
  using skew_threshold_exact
    [of "\<lparr>columns = all_columns,
          rows = [sample_quote ''put'' 30 95 (Some 0.22),
                  sample_quote ''call'' 30 105 (Some 0.2)]\<rparr>"
      100 "[sample_quote ''put'' 30 95 (Some 0.22), sample_quote ''call'' 30 105 (Some 0.2)]"
      30 22 20]
  by (simp add: all_columns_def sample_quote_def exp_rows_def otm_puts_of_def otm_calls_of_def
        puts_of_def calls_of_def strike_between_def group_mean_iv_def series_mean_def fscale_def
        skew_direction_def)

subsection \<open>Term structure\<close>

lemma ts_data_fst:
  "map fst (ts_data price valid ds) =
     filter (\<lambda>d. filter (strike_between price 0.98 1.02) (exp_rows valid d) \<noteq> []) ds"
  by (induction ds) (simp_all add: Let_def)

lemma series_mean_Some:
  assumes "xs \<noteq> []" and "\<And>x. x \<in> set xs \<Longrightarrow> notna x"
  shows "\<exists>m. series_mean xs = Some m"
proof -
  obtain x rest where xs: "xs = x # rest" using assms(1) by (cases xs) auto
  then have "notna x" using assms(2) by simp
  then obtain v where "x = Some v" by (cases x) (simp_all add: notna_def)
  then have "List.map_filter id xs \<noteq> []" using xs by simp
  then show ?thesis by (simp add: series_mean_def Let_def)
qed

lemma valid_vol_notna: "r \<in> set (valid_vol rs) \<Longrightarrow> notna (implied_volatility r)"
  by (simp add: valid_vol_def)

lemma ts_data_snd_Some:
  assumes "e \<in> set (ts_data price (valid_vol rs) ds)"
  shows "\<exists>v. snd e = Some v"
  using assms
proof (induction ds)
  case Nil
  then show ?case by simp
next
  case (Cons d ds)
  let ?atm = "filter (strike_between price 0.98 1.02) (exp_rows (valid_vol rs) d)"
  show ?case
  proof (cases "?atm = []")
    case True
    with Cons show ?thesis by (simp add: Let_def)
  next
    case False
    have "\<And>x. x \<in> set (map implied_volatility ?atm) \<Longrightarrow> notna x"
      by (auto simp add: exp_rows_def valid_vol_notna)
    with False obtain m where "series_mean (map implied_volatility ?atm) = Some m"
      using series_mean_Some [of "map implied_volatility ?atm"] by auto
    with Cons False show ?thesis by (auto simp add: Let_def fscale_def)
  qed
qed

lemma sorted_hd_last:
  fixes xs :: "int list"
  assumes "sorted xs" and "x \<in> set xs"
  shows "hd xs \<le> x \<and> x \<le> last xs"
  using assms by (induction xs) (auto simp add: last_in_set Ball_def)

lemma distinct_hd_last:
  assumes "distinct xs" and "2 \<le> length xs"
  shows "hd xs \<noteq> last xs"
  using assms by (cases xs) (auto simp add: last_in_set)

text \<open>
  Claim C3. The collected term-structure entries are in strictly increasing days to
  expiry, so the first is the earliest expiry and the last the latest. With at least
  two entries the spread is the last ATM IV minus the first, and the label is CONTANGO
  exactly when the spread is strictly positive, BACKWARDATION otherwise (a spread of 0
  included). Near 30 and far 35 give +5 and CONTANGO; reversed, -5 and BACKWARDATION.
\<close>

theorem term_structure_spread:
  assumes "ts = ts_data price (valid_vol rs) (take 6 (sort (remdups (map dte (valid_vol rs)))))"
      and "2 \<le> length ts"
  shows "(\<exists>near far.
            snd (hd ts) = Some near \<and> snd (last ts) = Some far \<and>
            term_structure ts =
              Some (if far - near > 0 then ''CONTANGO'' else ''BACKWARDATION'', Some (far - near)))
       \<and> (\<forall>e \<in> set ts. fst (hd ts) \<le> fst e \<and> fst e \<le> fst (last ts))
       \<and> fst (hd ts) < fst (last ts)
       \<and> term_structure [(d1, Some 30), (d2, Some 35)] = Some (''CONTANGO'', Some 5)
       \<and> term_structure [(d1, Some 35), (d2, Some 30)] = Some (''BACKWARDATION'', Some (- 5))
       \<and> term_structure [(d1, Some 30), (d2, Some 30)] = Some (''BACKWARDATION'', Some 0)"
proof -
  let ?ds = "take 6 (sort (remdups (map dte (valid_vol rs))))"
  have ne: "ts \<noteq> []" using assms(2) by auto
  then have "hd ts \<in> set ts" "last ts \<in> set ts" by simp_all
  then obtain near far where nf: "snd (hd ts) = Some near" "snd (last ts) = Some far"
    using ts_data_snd_Some assms(1) by blast
  have ts: "term_structure ts =
              Some (if far - near > 0 then ''CONTANGO'' else ''BACKWARDATION'', Some (far - near))"
    using assms(2) nf by (simp add: term_structure_def structure_of_def fsub_def fgt_def)
  have "sorted ?ds" by (simp add: sorted_wrt_take)
  then have s: "sorted (map fst ts)"
    unfolding assms(1) ts_data_fst by (rule sorted_wrt_filter)
  have "distinct ?ds" by (simp add: distinct_take)
  then have dist: "distinct (map fst ts)"
    unfolding assms(1) ts_data_fst by (rule distinct_filter)
  have hl: "hd (map fst ts) = fst (hd ts)" "last (map fst ts) = fst (last ts)"
    using ne by (simp_all add: hd_map last_map)
  have b: "\<forall>e \<in> set ts. fst (hd ts) \<le> fst e \<and> fst e \<le> fst (last ts)"
    using sorted_hd_last [OF s] hl by auto
  have "fst (hd ts) \<noteq> fst (last ts)"
    using distinct_hd_last [OF dist] assms(2) hl by simp
  moreover have "fst (hd ts) \<le> fst (last ts)" using b ne by auto
  ultimately have lt: "fst (hd ts) < fst (last ts)" by simp
  have ex: "term_structure [(d1, Some 30), (d2, Some 35)] = Some (''CONTANGO'', Some 5)"
      "term_structure [(d1, Some 35), (d2, Some 30)] = Some (''BACKWARDATION'', Some (- 5))"
      "term_structure [(d1, Some 30), (d2, Some 30)] = Some (''BACKWARDATION'', Some 0)"
    by (simp_all add: term_structure_def structure_of_def fsub_def fgt_def)
  show ?thesis using nf ts b lt ex by blast
qed


text \<open>
  Two expiries, 7 and 30 days, with ATM IV 30 and 35 percent: CONTANGO, spread +5.
\<close>

theorem term_structure_spread_witness:
  "term_structure
     (ts_data 100
        (valid_vol [sample_quote ''call'' 7 100 (Some 0.3), sample_quote ''call'' 30 100 (Some 0.35)])
        (take 6 (sort (remdups (map dte
           (valid_vol [sample_quote ''call'' 7 100 (Some 0.3),
                       sample_quote ''call'' 30 100 (Some 0.35)]))))))
   = Some (''CONTANGO'', Some 5)"
  using term_structure_spread
    [OF refl, of 100 "[sample_quote ''call'' 7 100 (Some 0.3), sample_quote ''call'' 30 100 (Some 0.35)]"]
  by (simp add: sample_quote_def valid_vol_def notna_def fgt_def exp_rows_def strike_between_def
        series_mean_def fscale_def Let_def term_structure_def structure_of_def fsub_def)

subsection \<open>Empty groups\<close>

lemma for_each_returns:
  assumes "\<And>x. \<exists>ls. body x = Inr ls"
  shows "\<exists>ls. for_each body xs = Inr ls"
proof (induction xs)
  case Nil
  show ?case by simp
next
  case (Cons x xs)
  obtain a where "body x = Inr a" using assms by blast
  moreover obtain b where "for_each body xs = Inr b" using Cons by blast
  ultimately show ?case by simp
qed

lemma fly_entry_empty_group:
  assumes "atm_calls_of price exp_data = [] \<or> otm_calls_of price exp_data = []
           \<or> otm_puts_of price exp_data = []"
  shows "fly_entry price exp_data = None"
  using assms by (auto simp add: fly_entry_def group_mean_iv_empty fgt_def)

lemma skew_entry_empty_group:
  assumes "otm_calls_of price exp_data = [] \<or> otm_puts_of price exp_data = []"
  shows "skew_entry price exp_data = None"
  using assms by (auto simp add: skew_entry_def group_mean_iv_empty fgt_def)

text \<open>
  Claim C4. The mean IV of an empty group is the sentinel 0. In \<open>analyze_vol_signals\<close>,
  an expiry whose ATM call band, OTM call wing or OTM put wing is empty prints no fly
  line, and one whose call or put wing is empty prints no skew line; with the
  \<open>option_type\<close> and \<open>strike\<close> columns there, the fly and skew loops return and raise
  nothing, whatever the rows. In \<open>analyze_iv_surface\<close> the entry of an expiry is built
  without an exception, each of its three means being 0 for an empty group.
\<close>

theorem empty_group_sentinel:
  assumes "''option_type'' \<in> set (columns tbl)" and "''strike'' \<in> set (columns tbl)"
      and "atm_calls_of price (exp_rows valid d) = [] \<or> otm_calls_of price (exp_rows valid d) = []
           \<or> otm_puts_of price (exp_rows valid d) = []"
  shows "group_mean_iv [] = Some 0
       \<and> fly_body tbl price valid d = Inr []
       \<and> (otm_calls_of price (exp_rows valid d) = [] \<or> otm_puts_of price (exp_rows valid d) = []
            \<longrightarrow> skew_body tbl price valid d = Inr [])
       \<and> (\<exists>ls. fly_section tbl price valid expirations = Inr ls)
       \<and> (\<exists>ls. skew_section tbl price valid expirations = Inr ls)
       \<and> (filter (\<lambda>r. expiration r = e) valid = r0 # rest
            \<longrightarrow> iv_entry tbl price valid e =
                Inr (e, dte r0,
                     (if filter (strike_between price 0.98 1.02) (r0 # rest) = [] then Some 0
                      else fscale (series_mean (map implied_volatility
                             (filter (strike_between price 0.98 1.02) (r0 # rest)))) 100),
                     (if calls_of (r0 # rest) = [] then Some 0
                      else fscale (series_mean (map implied_volatility (calls_of (r0 # rest)))) 100),
                     (if puts_of (r0 # rest) = [] then Some 0
                      else fscale (series_mean (map implied_volatility (puts_of (r0 # rest)))) 100)))"
proof -
  have fly: "fly_body tbl price valid d = Inr []"
    using assms by (simp add: fly_body_def col_def fly_entry_empty_group)
  have skew: "otm_calls_of price (exp_rows valid d) = [] \<or> otm_puts_of price (exp_rows valid d) = []
            \<longrightarrow> skew_body tbl price valid d = Inr []"
    using assms(1,2) by (auto simp add: skew_body_def col_def skew_entry_empty_group)
  have "\<And>x. \<exists>ls. fly_body tbl price valid x = Inr ls"
    using assms(1,2) by (simp add: fly_body_def col_def)
  then have fs: "\<exists>ls. fly_section tbl price valid expirations = Inr ls"
    unfolding fly_section_def by (rule for_each_returns)
  have "\<And>x. \<exists>ls. skew_body tbl price valid x = Inr ls"
    using assms(1,2) by (simp add: skew_body_def col_def)
  then have ss: "\<exists>ls. skew_section tbl price valid expirations = Inr ls"
    unfolding skew_section_def by (rule for_each_returns)
  have iv: "filter (\<lambda>r. expiration r = e) valid = r0 # rest
            \<longrightarrow> iv_entry tbl price valid e =
                Inr (e, dte r0,
                     (if filter (strike_between price 0.98 1.02) (r0 # rest) = [] then Some 0
                      else fscale (series_mean (map implied_volatility
                             (filter (strike_between price 0.98 1.02) (r0 # rest)))) 100),
                     (if calls_of (r0 # rest) = [] then Some 0
                      else fscale (series_mean (map implied_volatility (calls_of (r0 # rest)))) 100),
                     (if puts_of (r0 # rest) = [] then Some 0
                      else fscale (series_mean (map implied_volatility (puts_of (r0 # rest)))) 100))"
    using assms(1,2) by (simp add: iv_entry_def col_def group_mean_iv_def Let_def)
  show ?thesis using fly skew fs ss iv group_mean_iv_empty by blast
qed

text \<open>
  One ATM call and nothing else: both wings are empty, their mean is 0, the ATM mean is
  30 percent, and no fly line is printed.
\<close>

theorem empty_group_sentinel_witness:
  "fly_body \<lparr>columns = all_columns, rows = [sample_quote ''call'' 30 100 (Some 0.3)]\<rparr>
     100 [sample_quote ''call'' 30 100 (Some 0.3)] 30 = Inr []
   \<and> group_mean_iv (otm_puts_of 100 [sample_quote ''call'' 30 100 (Some 0.3)]) = Some 0
   \<and> group_mean_iv (atm_calls_of 100 [sample_quote ''call'' 30 100 (Some 0.3)]) = Some 30"
  using empty_group_sentinel
    [of "\<lparr>columns = all_columns, rows = [sample_quote ''call'' 30 100 (Some 0.3)]\<rparr>"
        100 "[sample_quote ''call'' 30 100 (Some 0.3)]" 30]
  by (simp add: all_columns_def sample_quote_def exp_rows_def otm_puts_of_def otm_calls_of_def
        atm_calls_of_def puts_of_def calls_of_def strike_between_def group_mean_iv_def
        series_mean_def fscale_def)

subsection \<open>Straddle\<close>

lemma straddle_line_value:
  assumes "price \<noteq> 0" and "d \<noteq> 0"
  shows "straddle_line tbl price d c p =
           Straddle_Line d ((bid c + ask c) / 2 + (bid p + ask p) / 2)
             (Some (((bid c + ask c) / 2 + (bid p + ask p) / 2) / price * 100))
             ((if ''theta'' \<in> set (columns tbl) then theta c else 0) +
              (if ''theta'' \<in> set (columns tbl) then theta p else 0))
             (Some (((bid c + ask c) / 2 + (bid p + ask p) / 2) / price * 100 / real_of_int d))"
  using assms by (simp add: straddle_line_def fdiv_def fscale_def Let_def)

text \<open>
  Claim C5. For an expiry whose nearest-to-spot call and put exist (first rows \<open>c\<close> and
  \<open>p\<close>), with a nonzero spot and nonzero days to expiry, the straddle line shows
  cost = (call bid + call ask)/2 + (put bid + put ask)/2, percent move = cost / spot
  times 100, and daily breakeven = percent move / days to expiry. Call mid 5, put mid 4,
  spot 100 and 30 days give cost 9, 9 percent and 0.3 percent a day.
\<close>

theorem straddle_breakeven:
  assumes "''option_type'' \<in> set (columns tbl)" and "''strike'' \<in> set (columns tbl)"
      and "''bid'' \<in> set (columns tbl)" and "''ask'' \<in> set (columns tbl)"
      and "nearest ''call'' price (exp_rows valid d) = c # cs"
      and "nearest ''put'' price (exp_rows valid d) = p # ps"
      and "price \<noteq> 0" and "d \<noteq> 0"
  shows "(\<exists>total_theta. straddle_body tbl price valid d =
            Inr [Straddle_Line d
                   ((bid c + ask c) / 2 + (bid p + ask p) / 2)
                   (Some (((bid c + ask c) / 2 + (bid p + ask p) / 2) / price * 100))
                   total_theta
                   (Some (((bid c + ask c) / 2 + (bid p + ask p) / 2) / price * 100
                          / real_of_int d))])
       \<and> (\<exists>total_theta.
            straddle_line tbl 100 30 (c\<lparr>bid := 4, ask := 6\<rparr>) (p\<lparr>bid := 3, ask := 5\<rparr>) =
              Straddle_Line 30 9 (Some 9) total_theta (Some 0.3))"
proof -
  have "straddle_body tbl price valid d = Inr [straddle_line tbl price d c p]"
    using assms(1-6) by (simp add: straddle_body_def col_def)
  then have a: "\<exists>total_theta. straddle_body tbl price valid d =
            Inr [Straddle_Line d
                   ((bid c + ask c) / 2 + (bid p + ask p) / 2)
                   (Some (((bid c + ask c) / 2 + (bid p + ask p) / 2) / price * 100))
                   total_theta
                   (Some (((bid c + ask c) / 2 + (bid p + ask p) / 2) / price * 100
                          / real_of_int d))]"
    using straddle_line_value [OF assms(7,8)] by simp
  have b: "\<exists>total_theta.
            straddle_line tbl 100 30 (c\<lparr>bid := 4, ask := 6\<rparr>) (p\<lparr>bid := 3, ask := 5\<rparr>) =
              Straddle_Line 30 9 (Some 9) total_theta (Some 0.3)"
    by (simp add: straddle_line_def fdiv_def fscale_def Let_def)
  show ?thesis using a b by (rule conjI)
qed

text \<open>
  A 100-strike call quoted 4 at 6 and put quoted 3 at 5, spot 100, 30 days: cost 9,
  9 percent, 0.3 percent a day (and theta -0.1 on each leg).
\<close>

theorem straddle_breakeven_witness:
  "straddle_body
     \<lparr>columns = all_columns,
      rows = [(sample_quote ''call'' 30 100 (Some 0.3))\<lparr>bid := 4, ask := 6\<rparr>,
              (sample_quote ''put'' 30 100 (Some 0.3))\<lparr>bid := 3, ask := 5\<rparr>]\<rparr>
     100
     [(sample_quote ''call'' 30 100 (Some 0.3))\<lparr>bid := 4, ask := 6\<rparr>,
      (sample_quote ''put'' 30 100 (Some 0.3))\<lparr>bid := 3, ask := 5\<rparr>] 30
   = Inr [Straddle_Line 30 9 (Some 9) (- 0.2) (Some 0.3)]"
  using straddle_breakeven
    [of "\<lparr>columns = all_columns,
          rows = [(sample_quote ''call'' 30 100 (Some 0.3))\<lparr>bid := 4, ask := 6\<rparr>,
                  (sample_quote ''put'' 30 100 (Some 0.3))\<lparr>bid := 3, ask := 5\<rparr>]\<rparr>"
        100
        "[(sample_quote ''call'' 30 100 (Some 0.3))\<lparr>bid := 4, ask := 6\<rparr>,
          (sample_quote ''put'' 30 100 (Some 0.3))\<lparr>bid := 3, ask := 5\<rparr>]" 30
        "(sample_quote ''call'' 30 100 (Some 0.3))\<lparr>bid := 4, ask := 6\<rparr>" "[]"
        "(sample_quote ''put'' 30 100 (Some 0.3))\<lparr>bid := 3, ask := 5\<rparr>" "[]"]
  by (simp add: all_columns_def sample_quote_def exp_rows_def nearest_def straddle_body_def
        col_def straddle_line_def fdiv_def fscale_def Let_def)

subsection \<open>Realized volatility\<close>

lemma fin_values_map_Fin: "fin_values (map Fin vs) = vs"
  by (induction vs) simp_all

lemma series_std_finite:
  assumes "2 \<le> length vs"
  shows "series_std (map Fin vs) = Some (spec_stdev vs)"
proof -
  have "Inf \<notin> set (map Fin vs)" by auto
  moreover have "(avg - v)\<^sup>2 = (v - avg)\<^sup>2" for avg v :: real
    by (simp add: power2_commute)
  moreover have "real (length vs - 1) = real (length vs) - 1"
    using assms by (simp add: of_nat_diff)
  ultimately show ?thesis
    using assms by (simp add: series_std_def spec_stdev_def fin_values_map_Fin Let_def)
qed

lemma tail_rows_trailing:
  assumes "0 \<le> n" and "n \<le> int (length xs)"
  shows "tail_rows n xs = drop (length xs - nat n) xs"
    and "length (tail_rows n xs) = nat n"
  using assms by (auto simp add: tail_rows_def)

text \<open>
  Claim C6. When the return series (the day-on-day relative changes of the close, nulls
  dropped) has at least \<open>lookback_days\<close> values, the realized volatility of
  \<open>calculate_vrp\<close> is the standard deviation of exactly the last \<open>lookback_days\<close>
  returns, times the square root of 252, times 100. For finite returns and a window of
  at least two days it is the number the specification's formula gives (the sample
  standard deviation); a window of fewer than two values has no standard deviation
  (NaN). Reals stand for floats.
\<close>

theorem realized_vol_annualised:
  assumes "0 \<le> lookback_days"
      and "lookback_days \<le> int (length (dropna (pct_change close)))"
  shows "realized_vol close lookback_days =
           fscale (fscale (series_std
             (drop (length (dropna (pct_change close)) - nat lookback_days)
                (dropna (pct_change close)))) (sqrt 252)) 100
       \<and> length (drop (length (dropna (pct_change close)) - nat lookback_days)
                (dropna (pct_change close))) = nat lookback_days
       \<and> (dropna (pct_change close) = map Fin returns \<and> 2 \<le> lookback_days
            \<longrightarrow> realized_vol close lookback_days =
                  Some (spec_realized_vol returns (nat lookback_days)))"
proof -
  let ?rs = "dropna (pct_change close)"
  have t: "tail_rows lookback_days ?rs = drop (length ?rs - nat lookback_days) ?rs"
    using assms by (rule tail_rows_trailing(1))
  have a: "realized_vol close lookback_days =
           fscale (fscale (series_std (drop (length ?rs - nat lookback_days) ?rs)) (sqrt 252)) 100"
    by (simp add: realized_vol_def t)
  have b: "length (drop (length ?rs - nat lookback_days) ?rs) = nat lookback_days"
    using assms by simp
  have c: "realized_vol close lookback_days = Some (spec_realized_vol returns (nat lookback_days))"
    if eq: "?rs = map Fin returns" and two: "2 \<le> lookback_days"
  proof -
    have len: "length returns = length ?rs" using eq by simp
    have d: "drop (length ?rs - nat lookback_days) ?rs =
             map Fin (drop (length returns - nat lookback_days) returns)"
      using eq by (simp add: drop_map)
    have "2 \<le> length (drop (length returns - nat lookback_days) returns)"
      using b two len by simp
    then have "series_std (drop (length ?rs - nat lookback_days) ?rs) =
               Some (spec_stdev (drop (length returns - nat lookback_days) returns))"
      unfolding d by (rule series_std_finite)
    then show ?thesis
      by (simp add: a fscale_def spec_realized_vol_def)
  qed
  show ?thesis using a b c by blast
qed

text \<open>
  Closes 100, 110, 99, 99 have returns 0.1, -0.1, 0; the last two have sample variance
  1/200.
\<close>

theorem realized_vol_annualised_witness:
  "realized_vol [100, 110, 99, 99] 2 = Some (spec_realized_vol [1 / 10, - 1 / 10, 0] 2)
   \<and> spec_realized_vol [1 / 10, - 1 / 10, 0] 2 = sqrt (1 / 200) * sqrt 252 * 100"
  using realized_vol_annualised [of 2 "[100, 110, 99, 99]" "[1 / 10, - 1 / 10, 0]"]
  by (auto simp add: dropna_def spec_realized_vol_def spec_stdev_def power2_eq_square)

subsection \<open>The 30-day implied volatility\<close>

lemma atm_30d_rows:
  "atm_30d price rs =
     filter (\<lambda>r. 25 \<le> dte r \<and> dte r \<le> 35 \<and>
                 price * 0.98 \<le> strike r \<and> strike r \<le> price * 1.02) rs"
  by (simp add: atm_30d_def strike_between_def conj_commute conj_left_commute cong: filter_cong)

lemma series_mean_numbers:
  assumes "vs \<noteq> []"
  shows "series_mean (map Some vs) = Some (sum_list vs / real (length vs))"
proof -
  have "List.map_filter id (map Some vs) = vs"
    by (induction vs) simp_all
  then show ?thesis using assms by (simp add: series_mean_def)
qed

text \<open>
  Claim C10. In \<open>calculate_vrp\<close>, on a table with rows, a price column and the \<open>dte\<close>
  and \<open>strike\<close> columns, let \<open>atm\<close> be the rows with 25 <= dte <= 35 and strike within
  [0.98, 1.02] of the spot (the price cell of the first row), bounds included. When
  \<open>atm\<close> is empty the function prints "No ATM options for 30-day expiry" and nothing
  else, whatever the price history is. Otherwise the 30-day IV it prints is the mean
  implied volatility of \<open>atm\<close> times 100 (for IVs without nulls: their sum over their
  count, times 100), and the VRP report follows from that value.
\<close>

theorem iv_30d_mean:
  assumes "rows tbl = r0 # rest" and "columns tbl \<noteq> []"
      and "resolve_price_col tbl \<in> set (columns tbl)"
      and "''dte'' \<in> set (columns tbl)" and "''strike'' \<in> set (columns tbl)"
      and "price = price_cell (resolve_price_col tbl) r0"
      and "atm = filter (\<lambda>r. 25 \<le> dte r \<and> dte r \<le> 35 \<and>
                 price * 0.98 \<le> strike r \<and> strike r \<le> price * 1.02) (rows tbl)"
  shows "(atm = [] \<longrightarrow>
            calculate_vrp (Returns (Some tbl)) hist_result lookback_days =
              [Msg ''No ATM options for 30-day expiry''])
       \<and> (atm \<noteq> [] \<and> ''implied_volatility'' \<in> set (columns tbl) \<longrightarrow>
            calculate_vrp (Returns (Some tbl)) hist_result lookback_days =
              IV30 (fscale (series_mean (map implied_volatility atm)) 100) #
              vrp_report (fscale (series_mean (map implied_volatility atm)) 100)
                hist_result lookback_days)
       \<and> (atm \<noteq> [] \<and> map implied_volatility atm = map Some ivs \<longrightarrow>
            fscale (series_mean (map implied_volatility atm)) 100 =
              Some (sum_list ivs / real (length ivs) * 100))"
proof -
  have a: "atm_30d price (rows tbl) = atm"
    using assms(7) by (simp add: atm_30d_rows)
  have ne: "\<not> empty_table tbl" using assms(1,2) by (simp add: empty_table_def)
  have run: "calculate_vrp (Returns (Some tbl)) hist_result lookback_days =
          (if atm = [] then [Msg ''No ATM options for 30-day expiry'']
           else col_try ''implied_volatility'' (columns tbl)
                  (IV30 (fscale (series_mean (map implied_volatility atm)) 100) #
                   vrp_report (fscale (series_mean (map implied_volatility atm)) 100)
                     hist_result lookback_days))"
    using ne assms(1,3,4,5) a [unfolded assms(6)]
    by (simp add: calculate_vrp_def col_try_def Let_def)
  have m: "fscale (series_mean (map implied_volatility atm)) 100 =
              Some (sum_list ivs / real (length ivs) * 100)"
    if "atm \<noteq> []" and "map implied_volatility atm = map Some ivs"
  proof -
    have "ivs \<noteq> []" using that by auto
    then show ?thesis using that(2) by (simp add: series_mean_numbers fscale_def)
  qed
  show ?thesis using run m by (simp add: col_try_def)
qed

text \<open>
  Of four quotes on a spot of 100, the 30-day 100 call (IV 0.2) and 101 put (IV 0.3) are
  in the window, the 60-day call and the 110 call are not: the 30-day IV is 25 percent.
\<close>

theorem iv_30d_mean_witness:
  "calculate_vrp
     (Returns (Some \<lparr>columns = all_columns,
        rows = [sample_quote ''call'' 30 100 (Some 0.2), sample_quote ''put'' 30 101 (Some 0.3),
                sample_quote ''call'' 60 100 (Some 0.9), sample_quote ''call'' 30 110 (Some 0.7)]\<rparr>))
     (Raises ''no history'') 30
   = [IV30 (Some 25), Msg ''Error: no history'']"
  using iv_30d_mean
    [of "\<lparr>columns = all_columns,
        rows = [sample_quote ''call'' 30 100 (Some 0.2), sample_quote ''put'' 30 101 (Some 0.3),
                sample_quote ''call'' 60 100 (Some 0.9), sample_quote ''call'' 30 110 (Some 0.7)]\<rparr>"
       "sample_quote ''call'' 30 100 (Some 0.2)"
       "[sample_quote ''put'' 30 101 (Some 0.3),
         sample_quote ''call'' 60 100 (Some 0.9), sample_quote ''call'' 30 110 (Some 0.7)]"
       100
       "[sample_quote ''call'' 30 100 (Some 0.2), sample_quote ''put'' 30 101 (Some 0.3)]"
       "Raises ''no history''" 30 "[0.2, 0.3]"]
  by (simp add: all_columns_def sample_quote_def resolve_price_col_def price_cell_def
        series_mean_def fscale_def vrp_report_def)

subsection \<open>The underlying-price column\<close>

text \<open>
  With neither price column, \<open>analyze_vol_signals\<close> and \<open>analyze_options_greeks\<close> print
  their message and return, and \<open>calculate_vrp\<close> catches the \<open>KeyError\<close> and prints it.
  \<open>analyze_iv_surface\<close> reads \<open>underlying_price\<close> without looking for it first.
\<close>

lemma vol_signals_no_price_column:
  assumes "\<not> empty_table tbl" and "''underlying_price'' \<notin> set (columns tbl)"
      and "''spot_price'' \<notin> set (columns tbl)"
  shows "analyze_vol_signals (Returns (Some tbl)) = Inr [Msg ''Cannot determine underlying price'']"
  using assms by (simp add: analyze_vol_signals_def resolve_price_col_def)

lemma options_greeks_no_price_column:
  assumes "\<not> empty_table tbl" and "''underlying_price'' \<notin> set (columns tbl)"
      and "''spot_price'' \<notin> set (columns tbl)"
  shows "analyze_options_greeks ticker (Returns (Some tbl)) lo hi w v m =
           Inr [Msg ''Cannot determine underlying price from data'']"
  using assms by (simp add: analyze_options_greeks_def resolve_price_col_def)

lemma calculate_vrp_no_price_column:
  assumes "\<not> empty_table tbl" and "''underlying_price'' \<notin> set (columns tbl)"
      and "''spot_price'' \<notin> set (columns tbl)"
  shows "calculate_vrp (Returns (Some tbl)) h n = [Caught (KeyError ''spot_price'')]"
  using assms by (simp add: calculate_vrp_def resolve_price_col_def col_try_def)

lemma iv_surface_no_underlying_price:
  assumes "\<not> empty_table tbl" and "''underlying_price'' \<notin> set (columns tbl)"
  shows "analyze_iv_surface ticker (Returns (Some tbl)) plot m = Inl (KeyError ''underlying_price'')"
  using assms by (simp add: analyze_iv_surface_def col_def)

text \<open>
  Claim C7. On a chain that has \<open>spot_price\<close> and no \<open>underlying_price\<close>, the resolver
  of \<open>analyze_vol_signals\<close> and \<open>analyze_options_greeks\<close> picks \<open>spot_price\<close> and both
  run to their reports, but \<open>analyze_iv_surface\<close> ends with an uncaught \<open>KeyError\<close>. On
  a chain with neither column, the first two print their message and \<open>calculate_vrp\<close>
  prints the caught error, but \<open>analyze_iv_surface\<close> again ends with the uncaught
  \<open>KeyError\<close>: not every script resolves the column or returns early.
\<close>

theorem iv_surface_price_column_raises:
  "resolve_price_col spot_price_table = ''spot_price''
   \<and> analyze_vol_signals (Returns (Some spot_price_table)) =
       Inr [Underlying 100, Expirations [30], TS_Line 30 (Some 20),
            Msg ''No strong signals detected'']
   \<and> analyze_options_greeks ''SPY'' (Returns (Some spot_price_table)) 7 60 0.05 False True =
       Inr [Greeks_Price 100, Greeks_Header 30 30 1,
            Greeks_Table ''calls''
              [''strike'', ''delta'', ''theta'', ''implied_volatility'', ''bid'', ''ask'']
              [sample_quote ''call'' 30 100 (Some 0.2)],
            Msg ''No ATM puts found'']
   \<and> analyze_iv_surface ''SPY'' (Returns (Some spot_price_table)) False True =
       Inl (KeyError ''underlying_price'')
   \<and> analyze_vol_signals (Returns (Some no_price_table)) =
       Inr [Msg ''Cannot determine underlying price'']
   \<and> analyze_options_greeks ''SPY'' (Returns (Some no_price_table)) 7 60 0.05 False True =
       Inr [Msg ''Cannot determine underlying price from data'']
   \<and> calculate_vrp (Returns (Some no_price_table)) (Raises ''unused'') 30 =
       [Caught (KeyError ''spot_price'')]
   \<and> analyze_iv_surface ''SPY'' (Returns (Some no_price_table)) False True =
       Inl (KeyError ''underlying_price'')"
proof -
  have a: "resolve_price_col spot_price_table = ''spot_price''"
    by (simp add: resolve_price_col_def spot_price_table_def)
  have b: "analyze_vol_signals (Returns (Some spot_price_table)) =
       Inr [Underlying 100, Expirations [30], TS_Line 30 (Some 20),
            Msg ''No strong signals detected'']"
    by (simp add: analyze_vol_signals_def spot_price_table_def sample_quote_def empty_table_def
          resolve_price_col_def price_cell_def col_def valid_vol_def notna_def fgt_def
          and_then_def ts_section_def fly_section_def skew_section_def straddle_section_def
          fly_body_def skew_body_def straddle_body_def fly_entry_def skew_entry_def
          exp_rows_def strike_between_def series_mean_def fscale_def term_structure_def
          atm_calls_of_def otm_calls_of_def otm_puts_of_def calls_of_def puts_of_def
          group_mean_iv_def nearest_def signals_summary_def Let_def)
  have c: "analyze_options_greeks ''SPY'' (Returns (Some spot_price_table)) 7 60 0.05 False True =
       Inr [Greeks_Price 100, Greeks_Header 30 30 1,
            Greeks_Table ''calls''
              [''strike'', ''delta'', ''theta'', ''implied_volatility'', ''bid'', ''ask'']
              [sample_quote ''call'' 30 100 (Some 0.2)],
            Msg ''No ATM puts found'']"
    by (simp add: analyze_options_greeks_def spot_price_table_def sample_quote_def
          empty_table_def resolve_price_col_def price_cell_def col_def valid_greeks_def fne_def
          atm_side_def greeks_cols_def Let_def)
  have ne: "\<not> empty_table spot_price_table" "\<not> empty_table no_price_table"
    by (simp_all add: empty_table_def spot_price_table_def no_price_table_def)
  have d: "analyze_iv_surface ''SPY'' (Returns (Some spot_price_table)) False True =
       Inl (KeyError ''underlying_price'')"
    by (rule iv_surface_no_underlying_price [OF ne(1)]) (simp add: spot_price_table_def)
  have cols: "''underlying_price'' \<notin> set (columns no_price_table)"
      "''spot_price'' \<notin> set (columns no_price_table)"
    by (simp_all add: no_price_table_def)
  show ?thesis
    using a b c d vol_signals_no_price_column [OF ne(2) cols]
      options_greeks_no_price_column [OF ne(2) cols]
      calculate_vrp_no_price_column [OF ne(2) cols]
      iv_surface_no_underlying_price [OF ne(2) cols(1)]
    by simp
qed

subsection \<open>The Greeks filter\<close>

text \<open>
  What the filter keeps: the rows in the inclusive days-to-expiry window whose delta is
  none of the numbers 0, 1 and -1. A null delta is none of them.
\<close>

lemma valid_greeks_set:
  "set (valid_greeks min_dte max_dte rs) =
     {r \<in> set rs. min_dte \<le> dte r \<and> dte r \<le> max_dte \<and>
        delta r \<noteq> Some 0 \<and> delta r \<noteq> Some 1 \<and> delta r \<noteq> Some (- 1)}"
  by (auto simp add: valid_greeks_def fne_def split: option.splits)

text \<open>
  Claim C8. A 30-day quote whose delta is null passes the filter of
  \<open>analyze_options_greeks\<close> (window 7 to 60 days) and is printed among the ATM calls,
  where the claim has every null-delta row excluded.
\<close>

theorem greeks_filter_keeps_null_delta:
  "valid_greeks 7 60 [null_delta_quote] = [null_delta_quote]
   \<and> delta null_delta_quote = None
   \<and> analyze_options_greeks ''SPY''
       (Returns (Some \<lparr>columns = all_columns, rows = [null_delta_quote]\<rparr>)) 7 60 0.05 False True =
       Inr [Greeks_Price 100, Greeks_Header 30 30 1,
            Greeks_Table ''calls''
              [''strike'', ''delta'', ''theta'', ''implied_volatility'', ''bid'', ''ask'']
              [null_delta_quote],
            Msg ''No ATM puts found'']"
  by (simp add: analyze_options_greeks_def null_delta_quote_def all_columns_def sample_quote_def
        empty_table_def resolve_price_col_def price_cell_def col_def valid_greeks_def fne_def
        atm_side_def greeks_cols_def Let_def)

subsection \<open>The instrument listing\<close>

text \<open>
  Claim C9. \<open>list_instruments\<close> does not look at what the fetch returned before it
  filters and prints it: \<open>None\<close> ends in an uncaught \<open>TypeError\<close>, a table without
  columns in an uncaught \<open>KeyError\<close> for \<open>symbol\<close>, and a listing without a \<open>last_price\<close>
  column in an uncaught \<open>KeyError\<close> for it. Its sibling \<open>analyze_perpetuals\<close> prints
  "No data" for \<open>None\<close> and for an empty table. So not every path ends normally.
\<close>

theorem list_instruments_uncaught:
  "list_instruments (Returns None) = Inl TypeError
   \<and> list_instruments (Returns (Some \<lparr>perp_columns = [], perp_rows = []\<rparr>)) =
       Inl (KeyError ''symbol'')
   \<and> list_instruments (Returns (Some sample_instruments)) = Inl (KeyError ''last_price'')
   \<and> analyze_perpetuals [''BTC'', ''ETH''] False (Returns None) =
       Inr [PMsg ''No data for BTC,ETH'']
   \<and> analyze_perpetuals [''BTC'', ''ETH''] False
       (Returns (Some \<lparr>perp_columns = [], perp_rows = []\<rparr>)) =
       Inr [PMsg ''No data for BTC,ETH'']"
  by (simp add: list_instruments_def analyze_perpetuals_def sample_instruments_def)

end
